theory Spec2Isabelle
  imports Main
begin

section \<open>The build: what the preprocessor sees\<close>

text \<open>
  \<^verbatim>\<open>apr_ldap_init.c\<close> is put together by the preprocessor: which statements a function
  holds depends on the macros of \<^verbatim>\<open>apu.h\<close>, \<^verbatim>\<open>apr_ldap.h\<close> and the toolkit's \<^verbatim>\<open>ldap.h\<close>.
  None of these headers is part of the file, so every macro that an \<^verbatim>\<open>#if\<close> or
  \<^verbatim>\<open>#ifdef\<close> of the file tests is a field of the build, under the spelling of the line
  that tests it. Two spellings differ from their neighbours and are kept apart:
  line 72 tests \<^verbatim>\<open>APR_HAS_NETSCAPE_LDAPSK\<close> where line 273 tests
  \<^verbatim>\<open>APR_HAS_NETSCAPE_LDAPSDK\<close>, and line 74 tests \<^verbatim>\<open>APR_HAS_LDAP_SSL_CLIENT_INIT\<close> where
  line 96 tests \<^verbatim>\<open>APR_HAS_LDAPSSL_CLIENT_INIT\<close>. A macro that is not defined reads as 0.
  The whole file is under \<^verbatim>\<open>#if APR_HAS_LDAP\<close>, which is taken to hold.
\<close>

record build =
  APR_HAS_LDAP_SSL :: bool
  APR_HAS_NETSCAPE_LDAPSK :: bool
  APR_HAS_LDAP_SSL_CLIENT_INIT :: bool
  APR_HAS_NOVELL_LDAPSDK :: bool
  APR_HAS_LDAPSSL_CLIENT_INIT :: bool
  APR_HAS_LDAPSSL_ADD_TRUSTED_CERT :: bool
  APR_HAS_LDAPSSL_CLIENT_DEINIT :: bool
  APR_HAS_OPENLDAP_LDAPSDK :: bool
  defined_LDAP_OPT_X_TLS_CACERTFILE :: bool
  APR_HAS_MICROSOFT_LDAPSDK :: bool
  APR_HAS_SOLARIS_LDAPSDK :: bool
  APR_HAS_OTHER_LDAPSDK :: bool
  APR_HAS_NETSCAPE_LDAPSDK :: bool
  APR_HAS_LDAPSSL_INIT :: bool
  defined_LDAP_OPT_X_TLS :: bool
  APR_HAS_LDAP_SSLINIT :: bool
  LDAP_VENDOR_NAME :: string

datatype variant =
  NetscapeStyle | NovellStyle | OpenLDAPStyle | MicrosoftStyle | SolarisStyle | Unrecognized

text \<open>
  A build selects a variant when, of the six toolkit macros, exactly the one of that
  variant is set. The misspelt macro of line 72 is left free in a Netscape build and
  is not set in any other.
\<close>

definition selects :: "build \<Rightarrow> variant \<Rightarrow> bool" where
  "selects b v \<longleftrightarrow>
     (APR_HAS_NETSCAPE_LDAPSDK b \<longleftrightarrow> v = NetscapeStyle) \<and>
     (APR_HAS_NOVELL_LDAPSDK b \<longleftrightarrow> v = NovellStyle) \<and>
     (APR_HAS_OPENLDAP_LDAPSDK b \<longleftrightarrow> v = OpenLDAPStyle) \<and>
     (APR_HAS_MICROSOFT_LDAPSDK b \<longleftrightarrow> v = MicrosoftStyle) \<and>
     (APR_HAS_SOLARIS_LDAPSDK b \<longleftrightarrow> v = SolarisStyle) \<and>
     (APR_HAS_OTHER_LDAPSDK b \<longleftrightarrow> v = Unrecognized) \<and>
     (APR_HAS_NETSCAPE_LDAPSK b \<longrightarrow> v = NetscapeStyle)"

section \<open>Constants of the headers\<close>

text \<open>
  The status codes of \<^verbatim>\<open>apr_errno.h\<close> (\<^verbatim>\<open>APR_OS_START_ERROR + 14\<close> and
  \<^verbatim>\<open>APR_OS_START_STATUS + 23\<close>) and the success code of the LDAP C API, which every
  toolkit defines as 0: the file relies on it when it leaves the zeroed \<^verbatim>\<open>rc\<close> of a fresh
  result untouched and then compares it with \<^verbatim>\<open>LDAP_SUCCESS\<close>.
\<close>

definition APR_SUCCESS :: int where "APR_SUCCESS = 0"
definition APR_EGENERAL :: int where "APR_EGENERAL = 20014"
definition APR_ENOTIMPL :: int where "APR_ENOTIMPL = 70023"
definition LDAP_SUCCESS :: int where "LDAP_SUCCESS = 0"

text \<open>
  Modelled from the spec: the values of the \<^verbatim>\<open>APR_LDAP_CA_TYPE_*\<close> macros of
  \<^verbatim>\<open>apr_ldap.h\<close>, which is not among the sources. The spec lists three distinct
  encodings, CERT7_DB, DER and BASE64; \<^verbatim>\<open>cert_file_type\<close> is a C \<^verbatim>\<open>int\<close> and may hold
  any other value as well (the file's own example passes 0).
\<close>

definition APR_LDAP_CA_TYPE_DER :: int where "APR_LDAP_CA_TYPE_DER = 1"
definition APR_LDAP_CA_TYPE_BASE64 :: int where "APR_LDAP_CA_TYPE_BASE64 = 2"
definition APR_LDAP_CA_TYPE_CERT7_DB :: int where "APR_LDAP_CA_TYPE_CERT7_DB = 3"

section \<open>The toolkit and the world\<close>

text \<open>
  \<^verbatim>\<open>LDAP *\<close> is an opaque handle; \<open>None\<close> is the null pointer, as it is for every
  \<^verbatim>\<open>char *\<close> below.
\<close>

type_synonym LDAP = nat

datatype cert_filetype = LDAPSSL_CERT_FILETYPE_B64 | LDAPSSL_CERT_FILETYPE_DER

text \<open>The calls into the toolkit, with their arguments, in the order they are made.\<close>

datatype native_call =
    Ldapssl_client_init "string option"
  | Ldapssl_add_trusted_cert string cert_filetype
  | Ldapssl_client_deinit
  | Ldap_set_option_CACERTFILE string
  | Ldap_set_option_TLS_HARD LDAP
  | Ldap_err2string int
  | Ldap_init "string option" int
  | Ldapssl_init "string option" int int
  | Ldap_sslinit "string option" int int
  | Ldap_unbind_s LDAP

text \<open>
  What the toolkit and the operating system answer. No function of the file makes the
  same call twice with different arguments, so an answer per argument covers every
  behaviour of the toolkit during one call of the API.
\<close>

record toolkit =
  ldapssl_client_init :: "string option \<Rightarrow> int"
  ldapssl_add_trusted_cert :: "string \<Rightarrow> cert_filetype \<Rightarrow> int"
  ldap_set_option_CACERTFILE :: "string \<Rightarrow> int"
  ldap_set_option_TLS_HARD :: "LDAP \<Rightarrow> int"
  ldap_err2string :: "int \<Rightarrow> string option"
  ldap_init :: "string option \<Rightarrow> int \<Rightarrow> LDAP option"
  ldapssl_init :: "string option \<Rightarrow> int \<Rightarrow> int \<Rightarrow> LDAP option"
  ldap_sslinit :: "string option \<Rightarrow> int \<Rightarrow> int \<Rightarrow> LDAP option"
  apr_get_os_error :: int

text \<open>
  Modelled from the spec: the trust store inside the toolkit, which the file only
  reaches through \<^verbatim>\<open>ldapssl_client_init\<close>, \<^verbatim>\<open>ldapssl_add_trusted_cert\<close> and
  \<^verbatim>\<open>ldapssl_client_deinit\<close>. The spec gives its states as
  Uninitialized, ClientInitialized and CertsLoaded(n): a successful client init takes
  Uninitialized to ClientInitialized and is a no-op otherwise, a successful add loads one
  more certificate into an initialized store, and deinit returns to Uninitialized.
\<close>

datatype trust_store = Uninitialized | ClientInitialized | CertsLoaded nat

fun client_initialized :: "trust_store \<Rightarrow> trust_store" where
  "client_initialized Uninitialized = ClientInitialized"
| "client_initialized ClientInitialized = ClientInitialized"
| "client_initialized (CertsLoaded n) = CertsLoaded n"

fun cert_added :: "trust_store \<Rightarrow> trust_store" where
  "cert_added Uninitialized = Uninitialized"
| "cert_added ClientInitialized = CertsLoaded 1"
| "cert_added (CertsLoaded n) = CertsLoaded (Suc n)"

record world =
  store :: trust_store
  calls :: "native_call list"

definition native :: "native_call \<Rightarrow> world \<Rightarrow> world" where
  "native c w = w\<lparr>calls := calls w @ [c]\<rparr>"

definition call_ldapssl_client_init :: "toolkit \<Rightarrow> string option \<Rightarrow> world \<Rightarrow> int \<times> world" where
  "call_ldapssl_client_init tk certdb w =
     (let r = ldapssl_client_init tk certdb
      in (r, native (Ldapssl_client_init certdb)
               (w\<lparr>store := (if r = LDAP_SUCCESS then client_initialized (store w) else store w)\<rparr>)))"

definition call_ldapssl_add_trusted_cert ::
    "toolkit \<Rightarrow> string \<Rightarrow> cert_filetype \<Rightarrow> world \<Rightarrow> int \<times> world" where
  "call_ldapssl_add_trusted_cert tk file ty w =
     (let r = ldapssl_add_trusted_cert tk file ty
      in (r, native (Ldapssl_add_trusted_cert file ty)
               (w\<lparr>store := (if r = LDAP_SUCCESS then cert_added (store w) else store w)\<rparr>)))"

definition call_ldapssl_client_deinit :: "world \<Rightarrow> world" where
  "call_ldapssl_client_deinit w = native Ldapssl_client_deinit (w\<lparr>store := Uninitialized\<rparr>)"

section \<open>The result record\<close>

record apr_ldap_err_t =
  reason :: "string option"
  msg :: "string option"
  rc :: int

text \<open>\<^verbatim>\<open>apr_pcalloc\<close> hands out zeroed memory: both strings null, \<^verbatim>\<open>rc\<close> 0.\<close>

definition apr_pcalloc :: apr_ldap_err_t where
  "apr_pcalloc = \<lparr>reason = None, msg = None, rc = 0\<rparr>"

section \<open>apr_ldap_ssl_init\<close>

text \<open>Lines 72 to 92, the Netscape SDK.\<close>

definition ssl_init_netscape ::
    "build \<Rightarrow> toolkit \<Rightarrow> string option \<Rightarrow> int \<Rightarrow> apr_ldap_err_t \<Rightarrow> world \<Rightarrow> apr_ldap_err_t \<times> world" where
  "ssl_init_netscape b tk cert_auth_file cert_file_type result w =
     (if \<not> APR_HAS_NETSCAPE_LDAPSK b then (result, w)
      else case cert_auth_file of
        None \<Rightarrow> (result, w)
      | Some file \<Rightarrow>
          if APR_HAS_LDAP_SSL_CLIENT_INIT b then
            (if cert_file_type = APR_LDAP_CA_TYPE_CERT7_DB then
               (let (r, w') = call_ldapssl_client_init tk (Some file) w
                in (result\<lparr>rc := r\<rparr>, w'))
             else
               (result\<lparr>reason := Some ''LDAP: Invalid certificate type: CERT7_DB type required'',
                       rc := - 1\<rparr>, w))
          else
            (result\<lparr>reason := Some (''LDAP: ldapssl_client_init() function not '' @
                                    ''supported by this Netscape SDK. Certificate '' @
                                    ''authority file not set''),
                    rc := - 1\<rparr>, w))"

text \<open>Lines 95 to 144, the Novell SDK.\<close>

definition ssl_init_novell ::
    "build \<Rightarrow> toolkit \<Rightarrow> string option \<Rightarrow> int \<Rightarrow> apr_ldap_err_t \<Rightarrow> world \<Rightarrow> apr_ldap_err_t \<times> world" where
  "ssl_init_novell b tk cert_auth_file cert_file_type result w =
     (if \<not> APR_HAS_NOVELL_LDAPSDK b then (result, w)
      else if APR_HAS_LDAPSSL_CLIENT_INIT b \<and> APR_HAS_LDAPSSL_ADD_TRUSTED_CERT b \<and>
              APR_HAS_LDAPSSL_CLIENT_DEINIT b then
        (let (r, w1) = call_ldapssl_client_init tk None w;
             result1 = result\<lparr>rc := r\<rparr>
         in if LDAP_SUCCESS \<noteq> rc result1 then
              (result1\<lparr>msg := ldap_err2string tk (rc result1),
                       reason := Some ''LDAP: Could not initialize SSL''\<rparr>,
               native (Ldap_err2string (rc result1)) w1)
            else case cert_auth_file of
              None \<Rightarrow> (result1, w1)
            | Some file \<Rightarrow>
                if cert_file_type = APR_LDAP_CA_TYPE_DER \<or>
                   cert_file_type = APR_LDAP_CA_TYPE_BASE64 then
                  (let (r2, w2) =
                         (if cert_file_type = APR_LDAP_CA_TYPE_BASE64
                          then call_ldapssl_add_trusted_cert tk file LDAPSSL_CERT_FILETYPE_B64 w1
                          else call_ldapssl_add_trusted_cert tk file LDAPSSL_CERT_FILETYPE_DER w1);
                       result2 = result1\<lparr>rc := r2\<rparr>
                   in if LDAP_SUCCESS \<noteq> rc result2 then
                        (result2\<lparr>reason := Some (''LDAP: Invalid certificate '' @
                                                 ''or path: Could not add '' @
                                                 ''trusted cert '' @ file)\<rparr>,
                         call_ldapssl_client_deinit w2)
                      else (result2, w2))
                else
                  (result1\<lparr>reason := Some (''LDAP: Invalid certificate type: '' @
                                           ''DER or BASE64 type required''),
                           rc := - 1\<rparr>, w1))
      else
        (result\<lparr>reason := Some (''LDAP: ldapssl_client_init(), '' @
                                ''ldapssl_add_trusted_cert() or '' @
                                ''ldapssl_client_deinit() functions not supported '' @
                                ''by this Novell SDK. Certificate authority file '' @
                                ''not set''),
                rc := - 1\<rparr>, w))"

text \<open>Lines 147 to 169, the OpenLDAP SDK.\<close>

definition ssl_init_openldap ::
    "build \<Rightarrow> toolkit \<Rightarrow> string option \<Rightarrow> int \<Rightarrow> apr_ldap_err_t \<Rightarrow> world \<Rightarrow> apr_ldap_err_t \<times> world" where
  "ssl_init_openldap b tk cert_auth_file cert_file_type result w =
     (if \<not> APR_HAS_OPENLDAP_LDAPSDK b then (result, w)
      else case cert_auth_file of
        None \<Rightarrow> (result, w)
      | Some file \<Rightarrow>
          if defined_LDAP_OPT_X_TLS_CACERTFILE b then
            (if cert_file_type = APR_LDAP_CA_TYPE_BASE64 then
               (result\<lparr>rc := ldap_set_option_CACERTFILE tk file\<rparr>,
                native (Ldap_set_option_CACERTFILE file) w)
             else
               (result\<lparr>reason := Some (''LDAP: Invalid certificate type: '' @
                                        ''BASE64 type required''),
                       rc := - 1\<rparr>, w))
          else
            (result\<lparr>reason := Some (''LDAP: LDAP_OPT_X_TLS_CACERTFILE not '' @
                                    ''defined by this OpenLDAP SDK. Certificate '' @
                                    ''authority file not set''),
                    rc := - 1\<rparr>, w))"

text \<open>Lines 172 to 177, the Microsoft SDK.\<close>

definition ssl_init_microsoft :: "build \<Rightarrow> apr_ldap_err_t \<Rightarrow> apr_ldap_err_t" where
  "ssl_init_microsoft b result =
     (if APR_HAS_MICROSOFT_LDAPSDK b then result\<lparr>rc := LDAP_SUCCESS\<rparr> else result)"

text \<open>Lines 180 to 187, the Sun SDK.\<close>

definition ssl_init_solaris :: "build \<Rightarrow> string option \<Rightarrow> apr_ldap_err_t \<Rightarrow> apr_ldap_err_t" where
  "ssl_init_solaris b cert_auth_file result =
     (if APR_HAS_SOLARIS_LDAPSDK b \<and> cert_auth_file \<noteq> None then
        result\<lparr>reason := Some (''LDAP: Attempt to set certificate store failed. '' @
                               ''APR does not yet know how to set a certificate '' @
                               ''store on the Sun toolkit''),
               rc := - 1\<rparr>
      else result)"

text \<open>Lines 190 to 198, a toolkit that is not recognised.\<close>

definition ssl_init_other :: "build \<Rightarrow> string option \<Rightarrow> apr_ldap_err_t \<Rightarrow> apr_ldap_err_t" where
  "ssl_init_other b cert_auth_file result =
     (if APR_HAS_OTHER_LDAPSDK b \<and> cert_auth_file \<noteq> None then
        result\<lparr>reason := Some (''LDAP: Attempt to set certificate store failed. '' @
                               ''Toolkit type not recognised by APR as supporting '' @
                               ''SSL''),
               rc := - 1\<rparr>
      else result)"

text \<open>Lines 200 to 205, a build without SSL support.\<close>

definition ssl_init_no_ssl :: "string option \<Rightarrow> apr_ldap_err_t \<Rightarrow> apr_ldap_err_t" where
  "ssl_init_no_ssl cert_auth_file result =
     (if cert_auth_file \<noteq> None then
        result\<lparr>reason := Some (''LDAP: Attempt to set certificate store failed. '' @
                               ''Not built with SSL support''),
               rc := - 1\<rparr>
      else result)"

text \<open>
  The function: a fresh result, the blocks of the build in the order of the file, the
  decoding of \<^verbatim>\<open>rc\<close> unless it is -1, and the status. It returns the status, the result
  stored through \<^verbatim>\<open>result_err\<close>, and the world.
\<close>

definition apr_ldap_ssl_init ::
    "build \<Rightarrow> toolkit \<Rightarrow> world \<Rightarrow> string option \<Rightarrow> int \<Rightarrow> int \<times> apr_ldap_err_t \<times> world" where
  "apr_ldap_ssl_init b tk w cert_auth_file cert_file_type =
     (let result = apr_pcalloc;
          (result, w) =
            (if APR_HAS_LDAP_SSL b then
               (let (result, w) = ssl_init_netscape b tk cert_auth_file cert_file_type result w;
                    (result, w) = ssl_init_novell b tk cert_auth_file cert_file_type result w;
                    (result, w) = ssl_init_openldap b tk cert_auth_file cert_file_type result w;
                    result = ssl_init_microsoft b result;
                    result = ssl_init_solaris b cert_auth_file result;
                    result = ssl_init_other b cert_auth_file result
                in (result, w))
             else (ssl_init_no_ssl cert_auth_file result, w));
          (result, w) =
            (if rc result \<noteq> - 1
             then (result\<lparr>msg := ldap_err2string tk (rc result)\<rparr>,
                   native (Ldap_err2string (rc result)) w)
             else (result, w))
      in if LDAP_SUCCESS \<noteq> rc result then (APR_EGENERAL, result, w)
         else (APR_SUCCESS, result, w))"


text \<open>
  The builds in which \<^verbatim>\<open>apr_ldap_ssl_init\<close> holds a call of \<^verbatim>\<open>ldapssl_client_init\<close>:
  line 78 in the Netscape block, line 98 in the Novell block.
\<close>

definition calls_client_init :: "build \<Rightarrow> bool" where
  "calls_client_init b \<longleftrightarrow>
     APR_HAS_LDAP_SSL b \<and>
     (APR_HAS_NETSCAPE_LDAPSK b \<and> APR_HAS_LDAP_SSL_CLIENT_INIT b \<or>
      APR_HAS_NOVELL_LDAPSDK b \<and> APR_HAS_LDAPSSL_CLIENT_INIT b \<and>
      APR_HAS_LDAPSSL_ADD_TRUSTED_CERT b \<and> APR_HAS_LDAPSSL_CLIENT_DEINIT b)"

section \<open>apr_ldap_ssl_deinit\<close>

definition apr_ldap_ssl_deinit :: "build \<Rightarrow> world \<Rightarrow> int \<times> world" where
  "apr_ldap_ssl_deinit b w =
     (let w = (if APR_HAS_LDAP_SSL b \<and> APR_HAS_LDAPSSL_CLIENT_DEINIT b
               then call_ldapssl_client_deinit w else w)
      in (APR_SUCCESS, w))"

section \<open>apr_ldap_init\<close>

text \<open>
  The function has returns inside its toolkit blocks. A block either returns, with the
  status and with \<^verbatim>\<open>*ldap\<close>, the result and the world as they are at that point, or
  runs on to the next block.
\<close>

datatype flow =
    Returned int "LDAP option" apr_ldap_err_t world
  | Running "LDAP option" apr_ldap_err_t world

definition and_then :: "flow \<Rightarrow> (LDAP option \<Rightarrow> apr_ldap_err_t \<Rightarrow> world \<Rightarrow> flow) \<Rightarrow> flow" where
  "and_then fl block =
     (case fl of
        Returned status ldap result w \<Rightarrow> Returned status ldap result w
      | Running ldap result w \<Rightarrow> block ldap result w)"

text \<open>The world a flow has arrived at.\<close>

definition world_of :: "flow \<Rightarrow> world" where
  "world_of fl =
     (case fl of
        Returned status ldap result w \<Rightarrow> w
      | Running ldap result w \<Rightarrow> w)"

text \<open>Lines 273 to 281, the Novell and Netscape toolkits.\<close>

definition init_novell_netscape ::
    "build \<Rightarrow> toolkit \<Rightarrow> string option \<Rightarrow> int \<Rightarrow> LDAP option \<Rightarrow> apr_ldap_err_t \<Rightarrow> world \<Rightarrow> flow" where
  "init_novell_netscape b tk hostname portno ldap result w =
     (if APR_HAS_NOVELL_LDAPSDK b \<or> APR_HAS_NETSCAPE_LDAPSDK b then
        (if APR_HAS_LDAPSSL_INIT b then
           Running (ldapssl_init tk hostname portno 1) result
                   (native (Ldapssl_init hostname portno 1) w)
         else
           Returned APR_ENOTIMPL ldap
             (result\<lparr>reason := Some (''LDAP: SSL not yet supported by APR on '' @
                                     ''this version of the Novell/Netscape toolkit'')\<rparr>) w)
      else Running ldap result w)"

text \<open>Lines 284 to 304, the OpenLDAP toolkit.\<close>

definition init_openldap ::
    "build \<Rightarrow> toolkit \<Rightarrow> string option \<Rightarrow> int \<Rightarrow> LDAP option \<Rightarrow> apr_ldap_err_t \<Rightarrow> world \<Rightarrow> flow" where
  "init_openldap b tk hostname portno ldap result w =
     (if APR_HAS_OPENLDAP_LDAPSDK b then
        (if defined_LDAP_OPT_X_TLS b then
           (let ldap = ldap_init tk hostname portno;
                w = native (Ldap_init hostname portno) w
            in case ldap of
                 None \<Rightarrow> Running ldap result w
               | Some ld \<Rightarrow>
                   (let result = result\<lparr>rc := ldap_set_option_TLS_HARD tk ld\<rparr>;
                        w = native (Ldap_set_option_TLS_HARD ld) w
                    in if LDAP_SUCCESS \<noteq> rc result then
                         (let w = native (Ldap_unbind_s ld) w;
                              result = result\<lparr>reason := Some (''LDAP: ldap_set_option - '' @
                                                              ''LDAP_OPT_X_TLS_HARD failed'')\<rparr>;
                              result = result\<lparr>msg := ldap_err2string tk (rc result)\<rparr>;
                              w = native (Ldap_err2string (rc result)) w
                          in Returned APR_EGENERAL None result w)
                       else Running ldap result w))
         else
           Returned APR_ENOTIMPL ldap
             (result\<lparr>reason := Some (''LDAP: SSL not yet supported by APR on this '' @
                                     ''version of the OpenLDAP toolkit'')\<rparr>) w)
      else Running ldap result w)"

text \<open>Lines 307 to 315, the Microsoft toolkit.\<close>

definition init_microsoft ::
    "build \<Rightarrow> toolkit \<Rightarrow> string option \<Rightarrow> int \<Rightarrow> LDAP option \<Rightarrow> apr_ldap_err_t \<Rightarrow> world \<Rightarrow> flow" where
  "init_microsoft b tk hostname portno ldap result w =
     (if APR_HAS_MICROSOFT_LDAPSDK b then
        (if APR_HAS_LDAP_SSLINIT b then
           Running (ldap_sslinit tk hostname portno 1) result
                   (native (Ldap_sslinit hostname portno 1) w)
         else
           Returned APR_ENOTIMPL ldap
             (result\<lparr>reason := Some (''LDAP: SSL not yet supported by APR on '' @
                                     ''this version of the Microsoft toolkit'')\<rparr>) w)
      else Running ldap result w)"

text \<open>Lines 318 to 322, the Sun toolkit.\<close>

definition init_solaris :: "build \<Rightarrow> LDAP option \<Rightarrow> apr_ldap_err_t \<Rightarrow> world \<Rightarrow> flow" where
  "init_solaris b ldap result w =
     (if APR_HAS_SOLARIS_LDAPSDK b then
        Returned APR_ENOTIMPL ldap
          (result\<lparr>reason := Some (''LDAP: SSL not yet supported by APR on '' @
                                  ''this version of the Sun toolkit'')\<rparr>) w
      else Running ldap result w)"

text \<open>Lines 325 to 327, a toolkit that is not recognised.\<close>

definition init_other :: "build \<Rightarrow> LDAP option \<Rightarrow> apr_ldap_err_t \<Rightarrow> world \<Rightarrow> flow" where
  "init_other b ldap result w =
     (if APR_HAS_OTHER_LDAPSDK b then Returned APR_ENOTIMPL ldap result w
      else Running ldap result w)"

text \<open>
  The function. \<open>ldap\<close> is what \<^verbatim>\<open>*ldap\<close> holds when the function is entered; the
  function does not write it on every path. \<open>secure\<close> is a C \<^verbatim>\<open>int\<close>, true when it is
  not 0. The function returns the status, \<^verbatim>\<open>*ldap\<close>, the result stored through
  \<^verbatim>\<open>result_err\<close>, and the world.
\<close>

definition apr_ldap_init ::
    "build \<Rightarrow> toolkit \<Rightarrow> world \<Rightarrow> LDAP option \<Rightarrow> string option \<Rightarrow> int \<Rightarrow> int \<Rightarrow>
     int \<times> LDAP option \<times> apr_ldap_err_t \<times> world" where
  "apr_ldap_init b tk w ldap hostname portno secure =
     (let result = apr_pcalloc;
          fl =
            (if secure = 0 then
               Running (ldap_init tk hostname portno) result (native (Ldap_init hostname portno) w)
             else if APR_HAS_LDAP_SSL b then
               and_then (and_then (and_then (and_then
                 (init_novell_netscape b tk hostname portno ldap result w)
                 (init_openldap b tk hostname portno))
                 (init_microsoft b tk hostname portno))
                 (init_solaris b))
                 (init_other b)
             else Running ldap result w)
      in case fl of
           Returned status ldap result w \<Rightarrow> (status, ldap, result, w)
         | Running ldap result w \<Rightarrow>
             if ldap = None then (apr_get_os_error tk, ldap, result, w)
             else (APR_SUCCESS, ldap, result, w))"

section \<open>apr_ldap_info\<close>

definition apr_ldap_info :: "build \<Rightarrow> int \<times> apr_ldap_err_t" where
  "apr_ldap_info b =
     (let result = apr_pcalloc;
          result = result\<lparr>reason := Some (''APR LDAP: Built with '' @ LDAP_VENDOR_NAME b @
                                          '' LDAP SDK'')\<rparr>
      in (APR_SUCCESS, result))"

section \<open>Where a secure call of apr_ldap_init returns before its last test\<close>

text \<open>
  The returns of lines 279, 302, 313, 321 and 326: the build has SSL support and no
  secure open for its toolkit.
\<close>

definition returns_not_implemented :: "build \<Rightarrow> bool" where
  "returns_not_implemented b \<longleftrightarrow>
     APR_HAS_LDAP_SSL b \<and>
     ((APR_HAS_NOVELL_LDAPSDK b \<or> APR_HAS_NETSCAPE_LDAPSDK b) \<and> \<not> APR_HAS_LDAPSSL_INIT b \<or>
      APR_HAS_OPENLDAP_LDAPSDK b \<and> \<not> defined_LDAP_OPT_X_TLS b \<or>
      APR_HAS_MICROSOFT_LDAPSDK b \<and> \<not> APR_HAS_LDAP_SSLINIT b \<or>
      APR_HAS_SOLARIS_LDAPSDK b \<or>
      APR_HAS_OTHER_LDAPSDK b)"

text \<open>
  The return of line 296: on OpenLDAP the connection was opened and the toolkit refused
  the option \<^verbatim>\<open>LDAP_OPT_X_TLS_HARD\<close> on it.
\<close>

definition hard_tls_refused :: "build \<Rightarrow> toolkit \<Rightarrow> string option \<Rightarrow> int \<Rightarrow> bool" where
  "hard_tls_refused b tk hostname portno \<longleftrightarrow>
     APR_HAS_LDAP_SSL b \<and> APR_HAS_OPENLDAP_LDAPSDK b \<and> defined_LDAP_OPT_X_TLS b \<and>
     (case ldap_init tk hostname portno of
        None \<Rightarrow> False
      | Some ld \<Rightarrow> ldap_set_option_TLS_HARD tk ld \<noteq> LDAP_SUCCESS)"

section \<open>The worlds the API can reach\<close>

definition fresh :: world where
  "fresh = \<lparr>store = Uninitialized, calls = []\<rparr>"

inductive reachable :: "build \<Rightarrow> world \<Rightarrow> bool" for b :: build where
  start: "reachable b fresh"
| after_ssl_init:
    "reachable b w \<Longrightarrow>
     reachable b (snd (snd (apr_ldap_ssl_init b tk w cert_auth_file cert_file_type)))"
| after_ssl_deinit:
    "reachable b w \<Longrightarrow> reachable b (snd (apr_ldap_ssl_deinit b w))"
| after_init:
    "reachable b w \<Longrightarrow>
     reachable b (snd (snd (snd (apr_ldap_init b tk w ldap hostname portno secure))))"

section \<open>Builds and toolkits to run the functions on\<close>

definition no_macros :: build where
  "no_macros =
     \<lparr>APR_HAS_LDAP_SSL = False, APR_HAS_NETSCAPE_LDAPSK = False,
      APR_HAS_LDAP_SSL_CLIENT_INIT = False, APR_HAS_NOVELL_LDAPSDK = False,
      APR_HAS_LDAPSSL_CLIENT_INIT = False, APR_HAS_LDAPSSL_ADD_TRUSTED_CERT = False,
      APR_HAS_LDAPSSL_CLIENT_DEINIT = False, APR_HAS_OPENLDAP_LDAPSDK = False,
      defined_LDAP_OPT_X_TLS_CACERTFILE = False, APR_HAS_MICROSOFT_LDAPSDK = False,
      APR_HAS_SOLARIS_LDAPSDK = False, APR_HAS_OTHER_LDAPSDK = False,
      APR_HAS_NETSCAPE_LDAPSDK = False, APR_HAS_LDAPSSL_INIT = False,
      defined_LDAP_OPT_X_TLS = False, APR_HAS_LDAP_SSLINIT = False,
      LDAP_VENDOR_NAME = ''unknown''\<rparr>"

definition openldap_build :: build where
  "openldap_build =
     no_macros\<lparr>APR_HAS_LDAP_SSL := True, APR_HAS_OPENLDAP_LDAPSDK := True,
               defined_LDAP_OPT_X_TLS_CACERTFILE := True, defined_LDAP_OPT_X_TLS := True,
               LDAP_VENDOR_NAME := ''OpenLDAP''\<rparr>"

definition openldap_build_without_ssl :: build where
  "openldap_build_without_ssl = openldap_build\<lparr>APR_HAS_LDAP_SSL := False\<rparr>"

definition novell_build :: build where
  "novell_build =
     no_macros\<lparr>APR_HAS_LDAP_SSL := True, APR_HAS_NOVELL_LDAPSDK := True,
               APR_HAS_LDAPSSL_CLIENT_INIT := True, APR_HAS_LDAPSSL_ADD_TRUSTED_CERT := True,
               APR_HAS_LDAPSSL_CLIENT_DEINIT := True, APR_HAS_LDAPSSL_INIT := True,
               LDAP_VENDOR_NAME := ''Novell''\<rparr>"

definition netscape_build :: build where
  "netscape_build =
     no_macros\<lparr>APR_HAS_LDAP_SSL := True, APR_HAS_NETSCAPE_LDAPSDK := True,
               APR_HAS_LDAPSSL_CLIENT_INIT := True, APR_HAS_LDAPSSL_INIT := True,
               LDAP_VENDOR_NAME := ''Netscape''\<rparr>"

definition netscape_build_with_client_init :: build where
  "netscape_build_with_client_init =
     netscape_build\<lparr>APR_HAS_NETSCAPE_LDAPSK := True, APR_HAS_LDAP_SSL_CLIENT_INIT := True\<rparr>"

definition microsoft_build :: build where
  "microsoft_build =
     no_macros\<lparr>APR_HAS_LDAP_SSL := True, APR_HAS_MICROSOFT_LDAPSDK := True,
               APR_HAS_LDAP_SSLINIT := True, LDAP_VENDOR_NAME := ''Microsoft''\<rparr>"

definition microsoft_build_without_ssl :: build where
  "microsoft_build_without_ssl = microsoft_build\<lparr>APR_HAS_LDAP_SSL := False\<rparr>"

definition solaris_build :: build where
  "solaris_build =
     no_macros\<lparr>APR_HAS_LDAP_SSL := True, APR_HAS_SOLARIS_LDAPSDK := True,
               LDAP_VENDOR_NAME := ''Sun''\<rparr>"

text \<open>
  A toolkit that opens connection 1 for every host, lets the client init succeed, and
  answers \<open>r\<close> where a certificate or an option is set; the last error of the
  operating system is 111.
\<close>

definition answering :: "int \<Rightarrow> toolkit" where
  "answering r =
     \<lparr>ldapssl_client_init = (\<lambda>certdb. 0),
      ldapssl_add_trusted_cert = (\<lambda>file ty. r),
      ldap_set_option_CACERTFILE = (\<lambda>file. r),
      ldap_set_option_TLS_HARD = (\<lambda>ld. r),
      ldap_err2string = (\<lambda>c. if c = 0 then Some ''Success'' else Some ''Unknown error''),
      ldap_init = (\<lambda>hostname portno. Some 1),
      ldapssl_init = (\<lambda>hostname portno secure. Some 1),
      ldap_sslinit = (\<lambda>hostname portno secure. Some 1),
      apr_get_os_error = 111\<rparr>"

text \<open>The same toolkit when no host can be reached.\<close>

definition unreachable_host :: toolkit where
  "unreachable_host =
     (answering 0)\<lparr>ldap_init := (\<lambda>hostname portno. None),
                   ldapssl_init := (\<lambda>hostname portno secure. None),
                   ldap_sslinit := (\<lambda>hostname portno secure. None)\<rparr>"

lemmas ssl_init_blocks =
  ssl_init_netscape_def ssl_init_novell_def ssl_init_openldap_def ssl_init_microsoft_def
  ssl_init_solaris_def ssl_init_other_def ssl_init_no_ssl_def

lemmas native_calls =
  native_def call_ldapssl_client_init_def call_ldapssl_add_trusted_cert_def
  call_ldapssl_client_deinit_def

lemmas init_blocks =
  and_then_def init_novell_netscape_def init_openldap_def init_microsoft_def
  init_solaris_def init_other_def

lemmas status_codes =
  APR_SUCCESS_def APR_EGENERAL_def APR_ENOTIMPL_def LDAP_SUCCESS_def

lemmas ca_types =
  APR_LDAP_CA_TYPE_DER_def APR_LDAP_CA_TYPE_BASE64_def APR_LDAP_CA_TYPE_CERT7_DB_def

lemmas builds =
  no_macros_def openldap_build_def openldap_build_without_ssl_def novell_build_def
  netscape_build_def netscape_build_with_client_init_def
  microsoft_build_def microsoft_build_without_ssl_def solaris_build_def

section \<open>Facts about builds, stores and flows\<close>

lemma selects_simps:
  "selects b v \<Longrightarrow> APR_HAS_NETSCAPE_LDAPSDK b = (v = NetscapeStyle)"
  "selects b v \<Longrightarrow> APR_HAS_NOVELL_LDAPSDK b = (v = NovellStyle)"
  "selects b v \<Longrightarrow> APR_HAS_OPENLDAP_LDAPSDK b = (v = OpenLDAPStyle)"
  "selects b v \<Longrightarrow> APR_HAS_MICROSOFT_LDAPSDK b = (v = MicrosoftStyle)"
  "selects b v \<Longrightarrow> APR_HAS_SOLARIS_LDAPSDK b = (v = SolarisStyle)"
  "selects b v \<Longrightarrow> APR_HAS_OTHER_LDAPSDK b = (v = Unrecognized)"
  "selects b v \<Longrightarrow> v \<noteq> NetscapeStyle \<Longrightarrow> \<not> APR_HAS_NETSCAPE_LDAPSK b"
  by (auto simp: selects_def)

lemma store_native [simp]: "store (native c w) = store w"
  by (simp add: native_def)

lemma store_and_then:
  assumes "store (world_of fl) = s"
    and "\<And>ldap result w. store w = s \<Longrightarrow> store (world_of (block ldap result w)) = s"
  shows "store (world_of (and_then fl block)) = s"
  using assms by (cases fl) (simp_all add: and_then_def world_of_def)

text \<open>\<^verbatim>\<open>apr_ldap_init\<close> never touches the trust store.\<close>

lemma store_after_init:
  "store (snd (snd (snd (apr_ldap_init b tk w ldap hostname portno secure)))) = store w"
proof -
  have blocks: "store (world_of (and_then (and_then (and_then (and_then
       (init_novell_netscape b tk hostname portno ldap apr_pcalloc w)
       (init_openldap b tk hostname portno))
       (init_microsoft b tk hostname portno))
       (init_solaris b))
       (init_other b))) = store w"
    by (intro store_and_then)
       (simp_all add: world_of_def init_novell_netscape_def init_openldap_def Let_def
          init_microsoft_def init_solaris_def init_other_def split: option.splits)
  have result: "snd (snd (snd (case fl of
           Returned status ldap result w \<Rightarrow> (status, ldap, result, w)
         | Running ldap result w \<Rightarrow>
             if ldap = None then (apr_get_os_error tk, ldap, result, w)
             else (APR_SUCCESS, ldap, result, w)))) = world_of fl" for fl
    by (cases fl) (simp_all add: world_of_def)
  show ?thesis
    unfolding apr_ldap_init_def Let_def result
    using blocks by (simp add: world_of_def)
qed

lemma store_ssl_init_netscape:
  assumes "\<not> (APR_HAS_NETSCAPE_LDAPSK b \<and> APR_HAS_LDAP_SSL_CLIENT_INIT b)"
  shows "store (snd (ssl_init_netscape b tk cert_auth_file cert_file_type result w)) = store w"
  using assms by (auto simp: ssl_init_netscape_def split: option.splits)

lemma store_ssl_init_novell:
  assumes "\<not> (APR_HAS_NOVELL_LDAPSDK b \<and> APR_HAS_LDAPSSL_CLIENT_INIT b \<and>
              APR_HAS_LDAPSSL_ADD_TRUSTED_CERT b \<and> APR_HAS_LDAPSSL_CLIENT_DEINIT b)"
  shows "store (snd (ssl_init_novell b tk cert_auth_file cert_file_type result w)) = store w"
  using assms by (auto simp: ssl_init_novell_def)

lemma store_ssl_init_openldap:
  "store (snd (ssl_init_openldap b tk cert_auth_file cert_file_type result w)) = store w"
  by (simp add: ssl_init_openldap_def split: option.splits)

text \<open>
  A build without a call of \<^verbatim>\<open>ldapssl_client_init\<close> leaves the trust store as it is,
  so the store of every world it can reach is Uninitialized.
\<close>

lemma store_after_ssl_init_stateless:
  assumes "\<not> calls_client_init b"
  shows "store (snd (snd (apr_ldap_ssl_init b tk w cert_auth_file cert_file_type))) = store w"
proof (cases "APR_HAS_LDAP_SSL b")
  case True
  with assms have "\<not> (APR_HAS_NETSCAPE_LDAPSK b \<and> APR_HAS_LDAP_SSL_CLIENT_INIT b)"
    and "\<not> (APR_HAS_NOVELL_LDAPSDK b \<and> APR_HAS_LDAPSSL_CLIENT_INIT b \<and>
            APR_HAS_LDAPSSL_ADD_TRUSTED_CERT b \<and> APR_HAS_LDAPSSL_CLIENT_DEINIT b)"
    by (auto simp: calls_client_init_def)
  then show ?thesis
    by (simp add: apr_ldap_ssl_init_def Let_def case_prod_beta store_ssl_init_netscape
          store_ssl_init_novell store_ssl_init_openldap)
next
  case False
  then show ?thesis
    by (simp add: apr_ldap_ssl_init_def Let_def)
qed

lemma reachable_stateless:
  assumes "reachable b w" and "\<not> calls_client_init b"
  shows "store w = Uninitialized"
  using assms
proof (induction rule: reachable.induct)
  case start
  show ?case by (simp add: fresh_def)
next
  case (after_ssl_init w tk cert_auth_file cert_file_type)
  then show ?case by (simp add: store_after_ssl_init_stateless)
next
  case (after_ssl_deinit w)
  then show ?case by (auto simp: apr_ldap_ssl_deinit_def call_ldapssl_client_deinit_def)
next
  case (after_init w tk ldap hostname portno secure)
  then show ?case by (simp add: store_after_init)
qed

text \<open>The toolkit blocks of a secure \<^verbatim>\<open>apr_ldap_init\<close> that run on to the next block.\<close>

lemma init_novell_netscape_runs:
  assumes "\<not> ((APR_HAS_NOVELL_LDAPSDK b \<or> APR_HAS_NETSCAPE_LDAPSDK b) \<and> \<not> APR_HAS_LDAPSSL_INIT b)"
  shows "\<exists>ldap' result' w'.
           init_novell_netscape b tk hostname portno ldap result w = Running ldap' result' w'"
  using assms by (auto simp: init_novell_netscape_def)

lemma init_openldap_runs:
  assumes "\<not> (APR_HAS_OPENLDAP_LDAPSDK b \<and> \<not> defined_LDAP_OPT_X_TLS b)"
    and "\<not> (APR_HAS_OPENLDAP_LDAPSDK b \<and> defined_LDAP_OPT_X_TLS b \<and>
            (case ldap_init tk hostname portno of
               None \<Rightarrow> False
             | Some ld \<Rightarrow> ldap_set_option_TLS_HARD tk ld \<noteq> LDAP_SUCCESS))"
  shows "\<exists>ldap' result' w'.
           init_openldap b tk hostname portno ldap result w = Running ldap' result' w'"
  using assms by (auto simp: init_openldap_def Let_def split: option.splits)

lemma init_microsoft_runs:
  assumes "\<not> (APR_HAS_MICROSOFT_LDAPSDK b \<and> \<not> APR_HAS_LDAP_SSLINIT b)"
  shows "\<exists>ldap' result' w'.
           init_microsoft b tk hostname portno ldap result w = Running ldap' result' w'"
  using assms by (auto simp: init_microsoft_def)

lemma and_then_runs:
  assumes "\<exists>ldap result w. fl = Running ldap result w"
    and "\<And>ldap result w. \<exists>ldap' result' w'. block ldap result w = Running ldap' result' w'"
  shows "\<exists>ldap' result' w'. and_then fl block = Running ldap' result' w'"
  using assms by (auto simp: and_then_def)

lemma secure_blocks_run:
  assumes "\<not> returns_not_implemented b" and "\<not> hard_tls_refused b tk hostname portno"
    and "APR_HAS_LDAP_SSL b"
  shows "\<exists>ldap' result' w'.
           and_then (and_then (and_then (and_then
             (init_novell_netscape b tk hostname portno ldap result w)
             (init_openldap b tk hostname portno))
             (init_microsoft b tk hostname portno))
             (init_solaris b))
             (init_other b) = Running ldap' result' w'"
proof -
  from assms have flags:
    "\<not> ((APR_HAS_NOVELL_LDAPSDK b \<or> APR_HAS_NETSCAPE_LDAPSDK b) \<and> \<not> APR_HAS_LDAPSSL_INIT b)"
    "\<not> (APR_HAS_OPENLDAP_LDAPSDK b \<and> \<not> defined_LDAP_OPT_X_TLS b)"
    "\<not> (APR_HAS_MICROSOFT_LDAPSDK b \<and> \<not> APR_HAS_LDAP_SSLINIT b)"
    "\<not> APR_HAS_SOLARIS_LDAPSDK b" "\<not> APR_HAS_OTHER_LDAPSDK b"
    by (simp_all add: returns_not_implemented_def)
  from assms have tls:
    "\<not> (APR_HAS_OPENLDAP_LDAPSDK b \<and> defined_LDAP_OPT_X_TLS b \<and>
        (case ldap_init tk hostname portno of
           None \<Rightarrow> False
         | Some ld \<Rightarrow> ldap_set_option_TLS_HARD tk ld \<noteq> LDAP_SUCCESS))"
    by (simp add: hard_tls_refused_def)
  show ?thesis
    by (intro and_then_runs init_novell_netscape_runs init_openldap_runs init_microsoft_runs
          flags tls)
       (simp_all add: init_solaris_def init_other_def flags)
qed

section \<open>Secure connections where the build has none\<close>

text \<open>
  With SSL support compiled in, the Sun toolkit and a toolkit that is not recognised
  return \<^verbatim>\<open>APR_ENOTIMPL\<close> from a secure \<^verbatim>\<open>apr_ldap_init\<close> without calling the toolkit.
  \<^verbatim>\<open>*ldap\<close> is not written: it holds what the caller left in it.
\<close>

lemma init_secure_not_implemented:
  assumes "APR_HAS_LDAP_SSL b" and "selects b v" and "v = SolarisStyle \<or> v = Unrecognized"
    and "secure \<noteq> 0"
  shows "case apr_ldap_init b tk w ldap hostname portno secure of
           (status, ldap', result, w') \<Rightarrow> status = APR_ENOTIMPL \<and> ldap' = ldap \<and> w' = w"
  using assms
  by (auto simp: apr_ldap_init_def Let_def init_blocks selects_simps)

text \<open>
  Without SSL support the \<^verbatim>\<open>else\<close> branch of line 269 is empty, whatever the toolkit:
  a secure call runs on to the test of line 335 and answers from the value \<^verbatim>\<open>*ldap\<close>
  had when the function was entered.
\<close>

lemma init_secure_without_ssl:
  assumes "\<not> APR_HAS_LDAP_SSL b" and "secure \<noteq> 0"
  shows "apr_ldap_init b tk w ldap hostname portno secure =
           ((if ldap = None then apr_get_os_error tk else APR_SUCCESS), ldap, apr_pcalloc, w)"
  using assms by (simp add: apr_ldap_init_def Let_def)

text \<open>
  C1. The claim: on a build without SSL support a secure \<^verbatim>\<open>apr_ldap_init\<close> returns
  \<^verbatim>\<open>APR_ENOTIMPL\<close>. The code on such a build, entered with \<^verbatim>\<open>*ldap\<close> null: no toolkit
  call is made and the handle stays null, but the status is the last error of the
  operating system (111 here), not \<^verbatim>\<open>APR_ENOTIMPL\<close> (70023).
\<close>

theorem init_secure_without_ssl_returns_os_error:
  "apr_ldap_init openldap_build_without_ssl (answering 0) fresh None
     (Some ''ldap.example.org'') 636 1 =
     (111, None, \<lparr>reason = None, msg = None, rc = 0\<rparr>, fresh) \<and>
   APR_ENOTIMPL = 70023"
  by (simp add: apr_ldap_init_def Let_def builds answering_def apr_pcalloc_def status_codes)

text \<open>The same call entered with a stale handle in \<^verbatim>\<open>*ldap\<close> reports success.\<close>

lemma init_secure_without_ssl_stale_handle:
  "apr_ldap_init openldap_build_without_ssl (answering 0) fresh (Some 7)
     (Some ''ldap.example.org'') 636 1 =
     (APR_SUCCESS, Some 7, \<lparr>reason = None, msg = None, rc = 0\<rparr>, fresh)"
  by (simp add: apr_ldap_init_def Let_def builds answering_def apr_pcalloc_def status_codes)

section \<open>Encodings a toolkit does not take\<close>

text \<open>
  C2, as the claim states it, fails on Novell: the block of lines 95 to 144 calls
  \<^verbatim>\<open>ldapssl_client_init(NULL, NULL)\<close> before it looks at the encoding ("Novell's library
  needs to be inititalised first"), so a call with CERT7_DB does call the toolkit, and
  leaves the client initialized.
\<close>

theorem ssl_init_novell_calls_toolkit_first:
  "apr_ldap_ssl_init novell_build (answering 0) fresh (Some ''/ca.pem'')
     APR_LDAP_CA_TYPE_CERT7_DB =
     (APR_EGENERAL,
      \<lparr>reason = Some ''LDAP: Invalid certificate type: DER or BASE64 type required'',
       msg = None, rc = - 1\<rparr>,
      \<lparr>store = ClientInitialized, calls = [Ldapssl_client_init None]\<rparr>)"
  by (simp add: apr_ldap_ssl_init_def Let_def ssl_init_blocks native_calls apr_pcalloc_def
        builds answering_def fresh_def status_codes ca_types)

text \<open>
  C2, amended. In a build with SSL support, a call with a certificate path and an
  encoding the toolkit does not take ends with status \<^verbatim>\<open>APR_EGENERAL\<close>, \<^verbatim>\<open>rc\<close> -1, no
  vendor message and a reason that names the encodings required:
  on OpenLDAP (with \<^verbatim>\<open>LDAP_OPT_X_TLS_CACERTFILE\<close>) for every encoding but BASE64, with
  no call into the toolkit;
  on Novell (with its three \<^verbatim>\<open>ldapssl\<close> functions) for every encoding but DER and
  BASE64, once the client init that the block makes first has succeeded, and with no
  other call into the toolkit than that init.
\<close>

theorem ssl_init_rejects_encoding:
  assumes "APR_HAS_LDAP_SSL b" and "selects b v"
  shows "(v = OpenLDAPStyle \<and> defined_LDAP_OPT_X_TLS_CACERTFILE b \<and>
          cert_file_type \<noteq> APR_LDAP_CA_TYPE_BASE64 \<longrightarrow>
          apr_ldap_ssl_init b tk w (Some path) cert_file_type =
            (APR_EGENERAL,
             \<lparr>reason = Some ''LDAP: Invalid certificate type: BASE64 type required'',
              msg = None, rc = - 1\<rparr>,
             w)) \<and>
         (v = NovellStyle \<and> APR_HAS_LDAPSSL_CLIENT_INIT b \<and>
          APR_HAS_LDAPSSL_ADD_TRUSTED_CERT b \<and> APR_HAS_LDAPSSL_CLIENT_DEINIT b \<and>
          ldapssl_client_init tk None = LDAP_SUCCESS \<and>
          cert_file_type \<noteq> APR_LDAP_CA_TYPE_DER \<and>
          cert_file_type \<noteq> APR_LDAP_CA_TYPE_BASE64 \<longrightarrow>
          apr_ldap_ssl_init b tk w (Some path) cert_file_type =
            (APR_EGENERAL,
             \<lparr>reason = Some ''LDAP: Invalid certificate type: DER or BASE64 type required'',
              msg = None, rc = - 1\<rparr>,
             w\<lparr>store := client_initialized (store w),
               calls := calls w @ [Ldapssl_client_init None]\<rparr>))"
  using assms
  by (simp add: apr_ldap_ssl_init_def Let_def ssl_init_blocks native_calls apr_pcalloc_def
        selects_simps status_codes)

theorem ssl_init_rejects_encoding_witness:
  "APR_HAS_LDAP_SSL openldap_build \<and> selects openldap_build OpenLDAPStyle \<and>
   defined_LDAP_OPT_X_TLS_CACERTFILE openldap_build \<and>
   APR_LDAP_CA_TYPE_CERT7_DB \<noteq> APR_LDAP_CA_TYPE_BASE64 \<and>
   apr_ldap_ssl_init openldap_build (answering 0) fresh (Some ''/ca.pem'')
     APR_LDAP_CA_TYPE_CERT7_DB =
     (APR_EGENERAL,
      \<lparr>reason = Some ''LDAP: Invalid certificate type: BASE64 type required'',
       msg = None, rc = - 1\<rparr>,
      fresh) \<and>
   APR_HAS_LDAP_SSL novell_build \<and> selects novell_build NovellStyle \<and>
   ldapssl_client_init (answering 0) None = LDAP_SUCCESS \<and>
   apr_ldap_ssl_init novell_build (answering 0) fresh (Some ''/cert7.db'') 0 =
     (APR_EGENERAL,
      \<lparr>reason = Some ''LDAP: Invalid certificate type: DER or BASE64 type required'',
       msg = None, rc = - 1\<rparr>,
      \<lparr>store = ClientInitialized, calls = [Ldapssl_client_init None]\<rparr>)"
  using ssl_init_rejects_encoding
          [where b = openldap_build and v = OpenLDAPStyle and tk = "answering 0" and w = fresh
             and path = "''/ca.pem''" and cert_file_type = APR_LDAP_CA_TYPE_CERT7_DB]
        ssl_init_rejects_encoding
          [where b = novell_build and v = NovellStyle and tk = "answering 0" and w = fresh
             and path = "''/cert7.db''" and cert_file_type = 0]
  by (simp add: builds selects_def answering_def fresh_def status_codes ca_types)

text \<open>
  The Netscape block is compiled under the macro of line 72 only. In a Netscape build
  that sets \<^verbatim>\<open>APR_HAS_NETSCAPE_LDAPSDK\<close>, the spelling of line 273, and not that one,
  the function does nothing with the certificate and reports success.
\<close>

lemma ssl_init_netscape_block_left_out:
  "selects netscape_build NetscapeStyle \<and>
   apr_ldap_ssl_init netscape_build (answering 0) fresh (Some ''/ca.pem'')
     APR_LDAP_CA_TYPE_DER =
     (APR_SUCCESS, \<lparr>reason = None, msg = Some ''Success'', rc = 0\<rparr>,
      \<lparr>store = Uninitialized, calls = [Ldap_err2string 0]\<rparr>)"
  by (simp add: apr_ldap_ssl_init_def Let_def ssl_init_blocks native_calls apr_pcalloc_def
        builds selects_def answering_def fresh_def status_codes ca_types)

section \<open>Tearing down what a failed call has opened\<close>

text \<open>
  C3. On OpenLDAP with \<^verbatim>\<open>LDAP_OPT_X_TLS\<close>, when a secure \<^verbatim>\<open>apr_ldap_init\<close> has opened
  the connection \<open>ld\<close> and the toolkit refuses \<^verbatim>\<open>LDAP_OPT_X_TLS_HARD\<close> on it, the
  function unbinds \<open>ld\<close>, sets \<^verbatim>\<open>*ldap\<close> to null and returns \<^verbatim>\<open>APR_EGENERAL\<close>; the
  result holds the toolkit's code, its decoding and a reason. The calls into the
  toolkit are, in this order: the open, the option, the unbind, the decoding.
\<close>

theorem init_hard_tls_failure_unbinds:
  assumes "APR_HAS_LDAP_SSL b" and "selects b OpenLDAPStyle" and "defined_LDAP_OPT_X_TLS b"
    and "secure \<noteq> 0"
    and "ldap_init tk hostname portno = Some ld"
    and "ldap_set_option_TLS_HARD tk ld \<noteq> LDAP_SUCCESS"
  shows "apr_ldap_init b tk w ldap hostname portno secure =
           (APR_EGENERAL, None,
            \<lparr>reason = Some ''LDAP: ldap_set_option - LDAP_OPT_X_TLS_HARD failed'',
             msg = ldap_err2string tk (ldap_set_option_TLS_HARD tk ld),
             rc = ldap_set_option_TLS_HARD tk ld\<rparr>,
            w\<lparr>calls := calls w @
                 [Ldap_init hostname portno, Ldap_set_option_TLS_HARD ld, Ldap_unbind_s ld,
                  Ldap_err2string (ldap_set_option_TLS_HARD tk ld)]\<rparr>)"
  using assms
  by (simp add: apr_ldap_init_def Let_def init_blocks native_def apr_pcalloc_def
        selects_simps status_codes)

theorem init_hard_tls_failure_unbinds_witness:
  "APR_HAS_LDAP_SSL openldap_build \<and> selects openldap_build OpenLDAPStyle \<and>
   defined_LDAP_OPT_X_TLS openldap_build \<and>
   ldap_init (answering 1) (Some ''ldap.example.org'') 636 = Some 1 \<and>
   ldap_set_option_TLS_HARD (answering 1) 1 \<noteq> LDAP_SUCCESS \<and>
   apr_ldap_init openldap_build (answering 1) fresh (Some 7) (Some ''ldap.example.org'') 636 1 =
     (APR_EGENERAL, None,
      \<lparr>reason = Some ''LDAP: ldap_set_option - LDAP_OPT_X_TLS_HARD failed'',
       msg = Some ''Unknown error'', rc = 1\<rparr>,
      \<lparr>store = Uninitialized,
       calls = [Ldap_init (Some ''ldap.example.org'') 636, Ldap_set_option_TLS_HARD 1,
                Ldap_unbind_s 1, Ldap_err2string 1]\<rparr>)"
  using init_hard_tls_failure_unbinds
          [where b = openldap_build and tk = "answering 1" and w = fresh and ldap = "Some 7"
             and hostname = "Some ''ldap.example.org''" and portno = 636 and secure = 1
             and ld = 1]
  by (simp add: builds selects_def answering_def fresh_def status_codes)

text \<open>
  C4. On Novell with its three \<^verbatim>\<open>ldapssl\<close> functions, when the client init has
  succeeded and \<^verbatim>\<open>ldapssl_add_trusted_cert\<close> fails on a DER or BASE64 file, the
  function calls \<^verbatim>\<open>ldapssl_client_deinit\<close> right after the failed add and before it
  returns \<^verbatim>\<open>APR_EGENERAL\<close>: the trust store is Uninitialized again, whatever it was
  before the call. The result holds the code of the add and a reason that names the file.
\<close>

theorem ssl_init_novell_add_failure_deinit:
  assumes "APR_HAS_LDAP_SSL b" and "selects b NovellStyle"
    and "APR_HAS_LDAPSSL_CLIENT_INIT b" and "APR_HAS_LDAPSSL_ADD_TRUSTED_CERT b"
    and "APR_HAS_LDAPSSL_CLIENT_DEINIT b"
    and "ldapssl_client_init tk None = LDAP_SUCCESS"
    and "cert_file_type = APR_LDAP_CA_TYPE_DER \<and> ty = LDAPSSL_CERT_FILETYPE_DER \<or>
         cert_file_type = APR_LDAP_CA_TYPE_BASE64 \<and> ty = LDAPSSL_CERT_FILETYPE_B64"
    and "ldapssl_add_trusted_cert tk path ty \<noteq> LDAP_SUCCESS"
  shows "case apr_ldap_ssl_init b tk w (Some path) cert_file_type of
           (status, result, w') \<Rightarrow>
             status = APR_EGENERAL \<and>
             rc result = ldapssl_add_trusted_cert tk path ty \<and>
             reason result =
               Some (''LDAP: Invalid certificate or path: Could not add trusted cert '' @ path) \<and>
             calls w' =
               calls w @
               [Ldapssl_client_init None, Ldapssl_add_trusted_cert path ty,
                Ldapssl_client_deinit] @
               (if rc result = - 1 then [] else [Ldap_err2string (rc result)]) \<and>
             store w' = Uninitialized"
  using assms
  by (auto simp: apr_ldap_ssl_init_def Let_def ssl_init_blocks native_calls apr_pcalloc_def
        selects_simps status_codes ca_types)

theorem ssl_init_novell_add_failure_deinit_witness:
  "APR_HAS_LDAP_SSL novell_build \<and> selects novell_build NovellStyle \<and>
   APR_HAS_LDAPSSL_CLIENT_INIT novell_build \<and> APR_HAS_LDAPSSL_ADD_TRUSTED_CERT novell_build \<and>
   APR_HAS_LDAPSSL_CLIENT_DEINIT novell_build \<and>
   ldapssl_client_init (answering 5) None = LDAP_SUCCESS \<and>
   ldapssl_add_trusted_cert (answering 5) ''/ca.der'' LDAPSSL_CERT_FILETYPE_DER \<noteq> LDAP_SUCCESS \<and>
   apr_ldap_ssl_init novell_build (answering 5) \<lparr>store = CertsLoaded 2, calls = []\<rparr>
     (Some ''/ca.der'') APR_LDAP_CA_TYPE_DER =
     (APR_EGENERAL,
      \<lparr>reason = Some ''LDAP: Invalid certificate or path: Could not add trusted cert /ca.der'',
       msg = Some ''Unknown error'', rc = 5\<rparr>,
      \<lparr>store = Uninitialized,
       calls = [Ldapssl_client_init None,
                Ldapssl_add_trusted_cert ''/ca.der'' LDAPSSL_CERT_FILETYPE_DER,
                Ldapssl_client_deinit, Ldap_err2string 5]\<rparr>)"
  using ssl_init_novell_add_failure_deinit
          [where b = novell_build and tk = "answering 5"
             and w = "\<lparr>store = CertsLoaded 2, calls = []\<rparr>" and path = "''/ca.der''"
             and cert_file_type = APR_LDAP_CA_TYPE_DER and ty = LDAPSSL_CERT_FILETYPE_DER]
  by (simp add: apr_ldap_ssl_init_def Let_def ssl_init_blocks native_calls apr_pcalloc_def
        builds selects_def answering_def status_codes ca_types)

section \<open>The fields of the result of apr_ldap_ssl_init\<close>


text \<open>
  When the toolkit itself answers -1, the value the function also uses for "not
  attempted", the failed call leaves both strings null.
\<close>

lemma ssl_init_toolkit_answers_minus_one:
  "apr_ldap_ssl_init openldap_build (answering (- 1)) fresh (Some ''/ca.pem'')
     APR_LDAP_CA_TYPE_BASE64 =
     (APR_EGENERAL, \<lparr>reason = None, msg = None, rc = - 1\<rparr>,
      \<lparr>store = Uninitialized, calls = [Ldap_set_option_CACERTFILE ''/ca.pem'']\<rparr>)"
  by (simp add: apr_ldap_ssl_init_def Let_def ssl_init_blocks native_calls apr_pcalloc_def
        builds answering_def fresh_def status_codes ca_types)



section \<open>The status of apr_ldap_init\<close>

text \<open>
  C6, as the claim states it, fails on the call of C3: the open attempt has produced a
  handle, and the function returns neither \<^verbatim>\<open>APR_SUCCESS\<close> nor, with the handle null at
  the return, the last error of the operating system (111), but \<^verbatim>\<open>APR_EGENERAL\<close>.
\<close>

theorem init_hard_tls_failure_status:
  "ldap_init (answering (- 1)) (Some ''ldap.example.org'') 389 = Some 1 \<and>
   apr_get_os_error (answering (- 1)) = 111 \<and>
   apr_ldap_init openldap_build (answering (- 1)) fresh None (Some ''ldap.example.org'') 389 1 =
     (20014, None,
      \<lparr>reason = Some ''LDAP: ldap_set_option - LDAP_OPT_X_TLS_HARD failed'',
       msg = Some ''Unknown error'', rc = - 1\<rparr>,
      \<lparr>store = Uninitialized,
       calls = [Ldap_init (Some ''ldap.example.org'') 389, Ldap_set_option_TLS_HARD 1,
                Ldap_unbind_s 1, Ldap_err2string (- 1)]\<rparr>) \<and>
   APR_EGENERAL = 20014 \<and> APR_SUCCESS = 0"
  by (simp add: apr_ldap_init_def Let_def init_blocks native_def apr_pcalloc_def
        builds answering_def fresh_def status_codes)

text \<open>
  C6, amended. A call of \<^verbatim>\<open>apr_ldap_init\<close> that none of the function's own returns
  ends early (\<^verbatim>\<open>APR_ENOTIMPL\<close> where a build with SSL support has no secure open for
  its toolkit, \<^verbatim>\<open>APR_EGENERAL\<close> where OpenLDAP refuses the hard TLS option on the
  opened connection) returns the last error of the operating system when \<^verbatim>\<open>*ldap\<close> is
  null and \<^verbatim>\<open>APR_SUCCESS\<close> when it is not. A call that is not secure is never ended
  early: its handle is what \<^verbatim>\<open>ldap_init\<close> gave, in every build.
\<close>

theorem init_status_of_handle:
  assumes "secure \<noteq> 0 \<longrightarrow>
           \<not> returns_not_implemented b \<and> \<not> hard_tls_refused b tk hostname portno"
  shows "case apr_ldap_init b tk w ldap hostname portno secure of
           (status, ldap', result, w') \<Rightarrow>
             status = (if ldap' = None then apr_get_os_error tk else APR_SUCCESS) \<and>
             (secure = 0 \<longrightarrow>
                ldap' = ldap_init tk hostname portno \<and>
                calls w' = calls w @ [Ldap_init hostname portno])"
proof (cases "secure \<noteq> 0 \<and> APR_HAS_LDAP_SSL b")
  case True
  with assms obtain ldap' result' w' where
    "and_then (and_then (and_then (and_then
       (init_novell_netscape b tk hostname portno ldap apr_pcalloc w)
       (init_openldap b tk hostname portno))
       (init_microsoft b tk hostname portno))
       (init_solaris b))
       (init_other b) = Running ldap' result' w'"
    using secure_blocks_run by blast
  with True show ?thesis
    by (simp add: apr_ldap_init_def)
next
  case False
  then show ?thesis
    by (auto simp: apr_ldap_init_def native_def)
qed

text \<open>
  Three calls: a secure one on Novell that opens connection 1, a secure one on OpenLDAP
  to a host that cannot be reached, and a plain one to that host.
\<close>

theorem init_status_of_handle_witness:
  "\<not> returns_not_implemented novell_build \<and>
   \<not> hard_tls_refused novell_build (answering 0) (Some ''ldap.example.org'') 636 \<and>
   apr_ldap_init novell_build (answering 0) fresh None (Some ''ldap.example.org'') 636 1 =
     (APR_SUCCESS, Some 1, \<lparr>reason = None, msg = None, rc = 0\<rparr>,
      \<lparr>store = Uninitialized, calls = [Ldapssl_init (Some ''ldap.example.org'') 636 1]\<rparr>) \<and>
   \<not> returns_not_implemented openldap_build \<and>
   \<not> hard_tls_refused openldap_build unreachable_host (Some ''ldap.example.org'') 636 \<and>
   apr_ldap_init openldap_build unreachable_host fresh None (Some ''ldap.example.org'') 636 1 =
     (111, None, \<lparr>reason = None, msg = None, rc = 0\<rparr>,
      \<lparr>store = Uninitialized, calls = [Ldap_init (Some ''ldap.example.org'') 636]\<rparr>) \<and>
   apr_ldap_init solaris_build unreachable_host fresh None (Some ''ldap.example.org'') 389 0 =
     (111, None, \<lparr>reason = None, msg = None, rc = 0\<rparr>,
      \<lparr>store = Uninitialized, calls = [Ldap_init (Some ''ldap.example.org'') 389]\<rparr>)"
  using init_status_of_handle
          [where b = novell_build and tk = "answering 0" and w = fresh and ldap = None
             and hostname = "Some ''ldap.example.org''" and portno = 636 and secure = 1]
        init_status_of_handle
          [where b = openldap_build and tk = unreachable_host and w = fresh and ldap = None
             and hostname = "Some ''ldap.example.org''" and portno = 636 and secure = 1]
        init_status_of_handle
          [where b = solaris_build and tk = unreachable_host and w = fresh and ldap = None
             and hostname = "Some ''ldap.example.org''" and portno = 389 and secure = 0]
  by (simp add: apr_ldap_init_def Let_def init_blocks native_def apr_pcalloc_def
        returns_not_implemented_def hard_tls_refused_def
        builds answering_def unreachable_host_def fresh_def status_codes)

section \<open>apr_ldap_ssl_deinit\<close>

text \<open>
  C7, as the claim states it, fails where \<^verbatim>\<open>ldapssl_client_deinit\<close> is not compiled in
  ("this function only does anything on Netware"): there the function makes no call and
  the trust store stays as it is. A Netscape build whose block of lines 72 to 92 is
  compiled initializes the client with a CERT7_DB file, and \<^verbatim>\<open>apr_ldap_ssl_deinit\<close>
  leaves it initialized.
\<close>

theorem ssl_deinit_leaves_client_initialized:
  "selects netscape_build_with_client_init NetscapeStyle \<and>
   reachable netscape_build_with_client_init
     (snd (snd (apr_ldap_ssl_init netscape_build_with_client_init (answering 0) fresh
                  (Some ''/cert7.db'') APR_LDAP_CA_TYPE_CERT7_DB))) \<and>
   snd (snd (apr_ldap_ssl_init netscape_build_with_client_init (answering 0) fresh
               (Some ''/cert7.db'') APR_LDAP_CA_TYPE_CERT7_DB)) =
     \<lparr>store = ClientInitialized,
      calls = [Ldapssl_client_init (Some ''/cert7.db''), Ldap_err2string 0]\<rparr> \<and>
   apr_ldap_ssl_deinit netscape_build_with_client_init
     \<lparr>store = ClientInitialized,
      calls = [Ldapssl_client_init (Some ''/cert7.db''), Ldap_err2string 0]\<rparr> =
     (APR_SUCCESS,
      \<lparr>store = ClientInitialized,
       calls = [Ldapssl_client_init (Some ''/cert7.db''), Ldap_err2string 0]\<rparr>)"
proof -
  have "reachable netscape_build_with_client_init
     (snd (snd (apr_ldap_ssl_init netscape_build_with_client_init (answering 0) fresh
                  (Some ''/cert7.db'') APR_LDAP_CA_TYPE_CERT7_DB)))"
    by (rule reachable.after_ssl_init) (rule reachable.start)
  then show ?thesis
    by (simp add: apr_ldap_ssl_deinit_def apr_ldap_ssl_init_def Let_def ssl_init_blocks
          native_calls apr_pcalloc_def builds selects_def answering_def fresh_def
          status_codes ca_types)
qed

text \<open>
  C7, amended. \<^verbatim>\<open>apr_ldap_ssl_deinit\<close> returns \<^verbatim>\<open>APR_SUCCESS\<close> from every state, and a
  second call right after the first returns \<^verbatim>\<open>APR_SUCCESS\<close> and leaves the trust store
  as the first did. In a build with SSL support and \<^verbatim>\<open>ldapssl_client_deinit\<close> it calls
  that function and takes every state of the trust store back to Uninitialized. In
  every other build it makes no call and leaves the world as it is; if moreover the
  build has no call of \<^verbatim>\<open>ldapssl_client_init\<close>, every state the API can reach is
  Uninitialized and stays so.
\<close>

theorem ssl_deinit_resets_idempotent:
  "case apr_ldap_ssl_deinit b w of
     (status, w1) \<Rightarrow>
       status = APR_SUCCESS \<and>
       (APR_HAS_LDAP_SSL b \<and> APR_HAS_LDAPSSL_CLIENT_DEINIT b \<longrightarrow>
          store w1 = Uninitialized \<and> calls w1 = calls w @ [Ldapssl_client_deinit]) \<and>
       (\<not> (APR_HAS_LDAP_SSL b \<and> APR_HAS_LDAPSSL_CLIENT_DEINIT b) \<longrightarrow> w1 = w) \<and>
       (reachable b w \<and> \<not> calls_client_init b \<longrightarrow> store w1 = Uninitialized) \<and>
       (case apr_ldap_ssl_deinit b w1 of
          (status2, w2) \<Rightarrow> status2 = APR_SUCCESS \<and> store w2 = store w1)"
proof -
  have "store w = Uninitialized" if "reachable b w" and "\<not> calls_client_init b"
    using that by (rule reachable_stateless)
  then show ?thesis
    by (auto simp: apr_ldap_ssl_deinit_def call_ldapssl_client_deinit_def native_def)
qed

text \<open>
  On Novell from a store with three certificates, and on OpenLDAP, which has neither
  \<^verbatim>\<open>ldapssl_client_deinit\<close> nor a call of \<^verbatim>\<open>ldapssl_client_init\<close>, from the world
  after a certificate was set.
\<close>

theorem ssl_deinit_resets_idempotent_witness:
  "APR_HAS_LDAP_SSL novell_build \<and> APR_HAS_LDAPSSL_CLIENT_DEINIT novell_build \<and>
   apr_ldap_ssl_deinit novell_build \<lparr>store = CertsLoaded 3, calls = []\<rparr> =
     (APR_SUCCESS, \<lparr>store = Uninitialized, calls = [Ldapssl_client_deinit]\<rparr>) \<and>
   apr_ldap_ssl_deinit novell_build \<lparr>store = Uninitialized, calls = [Ldapssl_client_deinit]\<rparr> =
     (APR_SUCCESS,
      \<lparr>store = Uninitialized, calls = [Ldapssl_client_deinit, Ldapssl_client_deinit]\<rparr>) \<and>
   \<not> (APR_HAS_LDAP_SSL openldap_build \<and> APR_HAS_LDAPSSL_CLIENT_DEINIT openldap_build) \<and>
   \<not> calls_client_init openldap_build \<and>
   reachable openldap_build
     (snd (snd (apr_ldap_ssl_init openldap_build (answering 0) fresh (Some ''/ca.pem'')
                  APR_LDAP_CA_TYPE_BASE64))) \<and>
   (case apr_ldap_ssl_deinit openldap_build
           (snd (snd (apr_ldap_ssl_init openldap_build (answering 0) fresh (Some ''/ca.pem'')
                        APR_LDAP_CA_TYPE_BASE64))) of
      (status, w1) \<Rightarrow>
        status = APR_SUCCESS \<and> store w1 = Uninitialized \<and>
        calls w1 = [Ldap_set_option_CACERTFILE ''/ca.pem'', Ldap_err2string 0])"
proof -
  have r: "reachable openldap_build
     (snd (snd (apr_ldap_ssl_init openldap_build (answering 0) fresh (Some ''/ca.pem'')
                  APR_LDAP_CA_TYPE_BASE64)))"
    by (rule reachable.after_ssl_init) (rule reachable.start)
  show ?thesis
    using r
      ssl_deinit_resets_idempotent
        [where b = novell_build and w = "\<lparr>store = CertsLoaded 3, calls = []\<rparr>"]
      ssl_deinit_resets_idempotent
        [where b = openldap_build
           and w = "snd (snd (apr_ldap_ssl_init openldap_build (answering 0) fresh
                                (Some ''/ca.pem'') APR_LDAP_CA_TYPE_BASE64))"]
    by (simp add: apr_ldap_ssl_deinit_def call_ldapssl_client_deinit_def calls_client_init_def
          apr_ldap_ssl_init_def Let_def ssl_init_blocks native_calls apr_pcalloc_def
          builds answering_def fresh_def status_codes ca_types)
qed

section \<open>The status of apr_ldap_ssl_init\<close>

text \<open>
  C8, as the claim states it, fails on a Microsoft build without SSL support: the block
  of lines 172 to 177 is inside \<^verbatim>\<open>#if APR_HAS_LDAP_SSL\<close>, and the branch of lines 200
  to 205 refuses every certificate path.
\<close>

theorem ssl_init_microsoft_without_ssl:
  "selects microsoft_build_without_ssl MicrosoftStyle \<and>
   apr_ldap_ssl_init microsoft_build_without_ssl (answering 0) fresh (Some ''/ca.pem'')
     APR_LDAP_CA_TYPE_BASE64 =
     (APR_EGENERAL,
      \<lparr>reason = Some ''LDAP: Attempt to set certificate store failed. Not built with SSL support'',
       msg = None, rc = - 1\<rparr>,
      fresh)"
  by (simp add: apr_ldap_ssl_init_def Let_def ssl_init_blocks apr_pcalloc_def
        builds selects_def answering_def fresh_def status_codes ca_types)

text \<open>
  C8, amended. In a Microsoft build with SSL support every call of
  \<^verbatim>\<open>apr_ldap_ssl_init\<close> returns \<^verbatim>\<open>APR_SUCCESS\<close> with \<^verbatim>\<open>rc\<close> equal to \<^verbatim>\<open>LDAP_SUCCESS\<close>,
  whatever the certificate path and the encoding: neither is looked at, and the only
  call into the toolkit is the decoding of \<^verbatim>\<open>rc\<close>.
\<close>

theorem ssl_init_microsoft_success:
  assumes "APR_HAS_LDAP_SSL b" and "selects b MicrosoftStyle"
  shows "apr_ldap_ssl_init b tk w cert_auth_file cert_file_type =
           (APR_SUCCESS,
            \<lparr>reason = None, msg = ldap_err2string tk LDAP_SUCCESS, rc = LDAP_SUCCESS\<rparr>,
            native (Ldap_err2string LDAP_SUCCESS) w)"
  using assms
  by (simp add: apr_ldap_ssl_init_def Let_def ssl_init_blocks apr_pcalloc_def selects_simps
        status_codes)

theorem ssl_init_microsoft_success_witness:
  "APR_HAS_LDAP_SSL microsoft_build \<and> selects microsoft_build MicrosoftStyle \<and>
   apr_ldap_ssl_init microsoft_build (answering 0) fresh (Some ''/ca.pem'')
     APR_LDAP_CA_TYPE_CERT7_DB =
     (APR_SUCCESS, \<lparr>reason = None, msg = Some ''Success'', rc = 0\<rparr>,
      \<lparr>store = Uninitialized, calls = [Ldap_err2string 0]\<rparr>)"
  using ssl_init_microsoft_success
          [where b = microsoft_build and tk = "answering 0" and w = fresh
             and cert_auth_file = "Some ''/ca.pem''"
             and cert_file_type = APR_LDAP_CA_TYPE_CERT7_DB]
  by (simp add: builds selects_def answering_def fresh_def native_def status_codes)

text \<open>
  C9. \<^verbatim>\<open>apr_ldap_ssl_init\<close> returns \<^verbatim>\<open>APR_SUCCESS\<close> or \<^verbatim>\<open>APR_EGENERAL\<close>, the first
  exactly when \<^verbatim>\<open>rc\<close> is \<^verbatim>\<open>LDAP_SUCCESS\<close>, and never \<^verbatim>\<open>APR_ENOTIMPL\<close>, for every build,
  toolkit and argument. Where the build cannot set a certificate store at all (no SSL
  support, the Sun toolkit, a toolkit that is not recognised), a call with a certificate
  path returns \<^verbatim>\<open>APR_EGENERAL\<close> with \<^verbatim>\<open>rc\<close> -1.
\<close>

theorem ssl_init_status_two_valued:
  "case apr_ldap_ssl_init b tk w cert_auth_file cert_file_type of
     (status, result, w') \<Rightarrow>
       (status = APR_SUCCESS \<or> status = APR_EGENERAL) \<and>
       (status = APR_SUCCESS \<longleftrightarrow> rc result = LDAP_SUCCESS) \<and>
       status \<noteq> APR_ENOTIMPL \<and>
       (cert_auth_file \<noteq> None \<and>
        (\<not> APR_HAS_LDAP_SSL b \<or> APR_HAS_SOLARIS_LDAPSDK b \<or> APR_HAS_OTHER_LDAPSDK b) \<longrightarrow>
        status = APR_EGENERAL \<and> rc result = - 1)"
  by (auto simp: apr_ldap_ssl_init_def Let_def ssl_init_solaris_def ssl_init_other_def
        ssl_init_no_ssl_def status_codes split: prod.splits)

theorem ssl_init_status_two_valued_witness:
  "APR_HAS_SOLARIS_LDAPSDK solaris_build \<and>
   apr_ldap_ssl_init solaris_build (answering 0) fresh (Some ''/ca.pem'')
     APR_LDAP_CA_TYPE_BASE64 =
     (APR_EGENERAL,
      \<lparr>reason = Some (''LDAP: Attempt to set certificate store failed. '' @
                      ''APR does not yet know how to set a certificate '' @
                      ''store on the Sun toolkit''),
       msg = None, rc = - 1\<rparr>,
      fresh) \<and>
   APR_EGENERAL \<noteq> APR_ENOTIMPL"
  using ssl_init_status_two_valued
          [where b = solaris_build and tk = "answering 0" and w = fresh
             and cert_auth_file = "Some ''/ca.pem''"
             and cert_file_type = APR_LDAP_CA_TYPE_BASE64]
  by (simp add: apr_ldap_ssl_init_def Let_def ssl_init_blocks native_calls apr_pcalloc_def
        builds answering_def fresh_def status_codes ca_types)

text \<open>
  C10. In every build that selects a toolkit other than Novell, with or without SSL
  support, a call of \<^verbatim>\<open>apr_ldap_ssl_init\<close> without a certificate path returns
  \<^verbatim>\<open>APR_SUCCESS\<close> with \<^verbatim>\<open>rc\<close> equal to \<^verbatim>\<open>LDAP_SUCCESS\<close> and no reason, whatever the
  encoding; the only call into the toolkit is the decoding of \<^verbatim>\<open>rc\<close>.
\<close>

theorem ssl_init_without_path_succeeds:
  assumes "selects b v" and "v \<noteq> NovellStyle"
  shows "apr_ldap_ssl_init b tk w None cert_file_type =
           (APR_SUCCESS,
            \<lparr>reason = None, msg = ldap_err2string tk LDAP_SUCCESS, rc = LDAP_SUCCESS\<rparr>,
            native (Ldap_err2string LDAP_SUCCESS) w)"
  using assms
  by (simp add: apr_ldap_ssl_init_def Let_def ssl_init_blocks apr_pcalloc_def selects_simps
        status_codes)

text \<open>The Sun toolkit with SSL support, and OpenLDAP without.\<close>

theorem ssl_init_without_path_succeeds_witness:
  "selects solaris_build SolarisStyle \<and> SolarisStyle \<noteq> NovellStyle \<and>
   apr_ldap_ssl_init solaris_build (answering 0) fresh None 0 =
     (APR_SUCCESS, \<lparr>reason = None, msg = Some ''Success'', rc = 0\<rparr>,
      \<lparr>store = Uninitialized, calls = [Ldap_err2string 0]\<rparr>) \<and>
   selects openldap_build_without_ssl OpenLDAPStyle \<and>
   \<not> APR_HAS_LDAP_SSL openldap_build_without_ssl \<and>
   apr_ldap_ssl_init openldap_build_without_ssl (answering 0) fresh None
     APR_LDAP_CA_TYPE_CERT7_DB =
     (APR_SUCCESS, \<lparr>reason = None, msg = Some ''Success'', rc = 0\<rparr>,
      \<lparr>store = Uninitialized, calls = [Ldap_err2string 0]\<rparr>)"
  using ssl_init_without_path_succeeds
          [where b = solaris_build and v = SolarisStyle and tk = "answering 0" and w = fresh
             and cert_file_type = 0]
        ssl_init_without_path_succeeds
          [where b = openldap_build_without_ssl and v = OpenLDAPStyle and tk = "answering 0"
             and w = fresh and cert_file_type = APR_LDAP_CA_TYPE_CERT7_DB]
  by (simp add: builds selects_def answering_def fresh_def native_def status_codes)

end
